theory Spec2Isabelle
  imports Main "HOL-Library.Word"
begin

section \<open>User-mode Windows platform layer (ddcWinPlatform.cpp)\<close>

text \<open>
  A shallow embedding of the DevDriver user-mode Windows platform layer. The file is a thin
  layer over the Win32 API, so every operating-system service it calls is a field of the
  record \<open>os_api\<close>: the answer the system gives to a call, as a function of everything the
  program did before (the trace) and of the call's arguments. A theorem that holds for every
  \<open>os_api\<close> holds for every behaviour of the system. Each call and each diagnostic is
  appended to the trace, so that "no system call is made" is a statement about the trace.
\<close>

subsection \<open>Basic types and constants\<close>

text \<open>
  The enumeration \<open>Result\<close> is declared in a header that is not part of the file; these are
  the enumerators that ddcWinPlatform.cpp uses, together with \<open>FileNotFound\<close> of
  \<open>Library::Load\<close>.
\<close>

datatype Result =
    Success | Error | NotReady | Unavailable | InvalidParameter | FileNotFound | FileIoError

text \<open>Pointers and handles are addresses; the null pointer and the NULL handle are 0.\<close>

type_synonym pointer = nat
type_synonym HANDLE = nat
type_synonym DWORD = "32 word"
type_synonym BOOL = "32 word"
type_synonym HRESULT = "32 word"
type_synonym uint32 = "32 word"
type_synonym wchar_t = "16 word"
type_synonym size_t = nat

definition NULL :: HANDLE where
  "NULL = 0"

definition nullptr :: pointer where
  "nullptr = 0"

text \<open>Values of the Windows SDK headers (winbase.h, winerror.h).\<close>

definition WAIT_OBJECT_0 :: DWORD where
  "WAIT_OBJECT_0 = 0"

definition WAIT_TIMEOUT :: DWORD where
  "WAIT_TIMEOUT = 258"

definition WAIT_FAILED :: DWORD where
  "WAIT_FAILED = 0xFFFFFFFF"

definition ERROR_INVALID_HANDLE :: DWORD where
  "ERROR_INVALID_HANDLE = 6"

definition ERROR_ALREADY_EXISTS :: DWORD where
  "ERROR_ALREADY_EXISTS = 183"

definition E_FAIL :: HRESULT where
  "E_FAIL = 0x80004005"

text \<open>\<open>SUCCEEDED(hr)\<close> is \<open>((HRESULT)(hr)) >= 0\<close> on a signed 32-bit value.\<close>

definition SUCCEEDED :: "HRESULT \<Rightarrow> bool" where
  "SUCCEEDED hr = (0 \<le> sint hr)"

text \<open>\<open>(size_t)-1\<close> of a 64-bit build, the failure value of \<open>mbstowcs\<close>.\<close>

definition SIZE_MAX :: size_t where
  "SIZE_MAX = 2 ^ 64 - 1"

text \<open>
  What C++ leaves undefined is a value of the model: the overflow of a signed operation, and
  a store outside an array.
\<close>

datatype fault = SignedOverflow | BufferOverrun

subsection \<open>Atomic operations\<close>

text \<open>
  \<open>Atomic\<close> is a \<open>volatile long\<close> (32 bits on Windows) and \<open>Atomic64\<close> a 64-bit one. A
  function on \<open>Atomic* pVariable\<close> takes the value stored there and returns the pair of the
  value it returns and the value it leaves stored. The Interlocked intrinsics are those of
  the Windows documentation: \<open>InterlockedAdd\<close> adds and returns the sum,
  \<open>InterlockedCompareExchange\<close> stores \<open>exchange\<close> when the destination equals
  \<open>comparand\<close> and returns the initial value. The addition inside the intrinsic is the
  processor's and wraps around, as addition on words does.
\<close>

type_synonym Atomic = "32 word"



definition InterlockedCompareExchange :: "Atomic \<Rightarrow> 32 word \<Rightarrow> 32 word \<Rightarrow> 32 word \<times> Atomic" where
  "InterlockedCompareExchange destination exchange comparand =
     (destination, if destination = comparand then exchange else destination)"









subsection \<open>The operating system and the trace\<close>

text \<open>
  Everything the program does that is visible outside: the Win32 and C library calls of the
  file with their arguments, and the diagnostics it emits.
\<close>

datatype os_event =
    Call_WaitForSingleObject HANDLE uint32
  | Call_GetLastError
  | Call_CreateThread pointer pointer
  | Call_CloseHandle HANDLE
  | Call_GetModuleHandle string
  | Call_GetProcAddress HANDLE string
  | Call_SetThreadDescription HANDLE "wchar_t list"
  | Call_CreateDirectory string
  | Diag_Print string "32 word list"
  | Diag_Assert string
  | Diag_Warn string

type_synonym trace = "os_event list"

text \<open>
  The answers of the system. \<open>CreateThread\<close> is given the entry function and the parameter
  that the thread object holds when the call is made (the shim reads them through \<open>this\<close>).
  \<open>mbtowc\<close> is the multibyte decoder of the current locale: at a non-empty byte string it
  gives the wide character at its front and the number of bytes it takes, or \<open>None\<close> for an
  invalid sequence.
\<close>

record os_api =
  WaitForSingleObject :: "trace \<Rightarrow> HANDLE \<Rightarrow> uint32 \<Rightarrow> DWORD"
  GetLastError :: "trace \<Rightarrow> DWORD"
  CreateThread :: "trace \<Rightarrow> pointer \<Rightarrow> pointer \<Rightarrow> HANDLE"
  CloseHandle :: "trace \<Rightarrow> HANDLE \<Rightarrow> BOOL"
  GetModuleHandle :: "trace \<Rightarrow> string \<Rightarrow> HANDLE"
  GetProcAddress :: "trace \<Rightarrow> HANDLE \<Rightarrow> string \<Rightarrow> pointer"
  SetThreadDescription :: "trace \<Rightarrow> HANDLE \<Rightarrow> wchar_t list \<Rightarrow> HRESULT"
  CreateDirectory :: "trace \<Rightarrow> string \<Rightarrow> BOOL"
  mbtowc :: "string \<Rightarrow> (wchar_t \<times> nat) option"

text \<open>A call returns the system's answer and extends the trace.\<close>

definition call_WaitForSingleObject :: "os_api \<Rightarrow> HANDLE \<Rightarrow> uint32 \<Rightarrow> trace \<Rightarrow> DWORD \<times> trace" where
  "call_WaitForSingleObject os hHandle dwMilliseconds tr =
     (WaitForSingleObject os tr hHandle dwMilliseconds,
      tr @ [Call_WaitForSingleObject hHandle dwMilliseconds])"

definition call_GetLastError :: "os_api \<Rightarrow> trace \<Rightarrow> DWORD \<times> trace" where
  "call_GetLastError os tr = (GetLastError os tr, tr @ [Call_GetLastError])"

definition call_CreateThread :: "os_api \<Rightarrow> pointer \<Rightarrow> pointer \<Rightarrow> trace \<Rightarrow> HANDLE \<times> trace" where
  "call_CreateThread os pFn pParam tr =
     (CreateThread os tr pFn pParam, tr @ [Call_CreateThread pFn pParam])"

definition call_CloseHandle :: "os_api \<Rightarrow> HANDLE \<Rightarrow> trace \<Rightarrow> BOOL \<times> trace" where
  "call_CloseHandle os hObject tr = (CloseHandle os tr hObject, tr @ [Call_CloseHandle hObject])"

definition call_GetModuleHandle :: "os_api \<Rightarrow> string \<Rightarrow> trace \<Rightarrow> HANDLE \<times> trace" where
  "call_GetModuleHandle os name tr = (GetModuleHandle os tr name, tr @ [Call_GetModuleHandle name])"

definition call_GetProcAddress :: "os_api \<Rightarrow> HANDLE \<Rightarrow> string \<Rightarrow> trace \<Rightarrow> pointer \<times> trace" where
  "call_GetProcAddress os hModule name tr =
     (GetProcAddress os tr hModule name, tr @ [Call_GetProcAddress hModule name])"

definition call_SetThreadDescription :: "os_api \<Rightarrow> HANDLE \<Rightarrow> wchar_t list \<Rightarrow> trace \<Rightarrow> HRESULT \<times> trace" where
  "call_SetThreadDescription os h description tr =
     (SetThreadDescription os tr h description, tr @ [Call_SetThreadDescription h description])"

definition call_CreateDirectory :: "os_api \<Rightarrow> string \<Rightarrow> trace \<Rightarrow> BOOL \<times> trace" where
  "call_CreateDirectory os path tr = (CreateDirectory os tr path, tr @ [Call_CreateDirectory path])"

subsection \<open>Diagnostics\<close>

text \<open>
  Modelled from the spec: the macros \<open>DD_PRINT\<close>, \<open>DD_ASSERT\<close>, \<open>DD_ASSERT_ALWAYS\<close>,
  \<open>DD_ASSERT_REASON\<close>, \<open>DD_WARN\<close> and \<open>DD_WARN_REASON\<close> come from the header ddPlatform.h,
  which is not part of the file. The spec describes them as a diagnostic-emission hook
  \<open>emit(severity, message)\<close> "used for logging and bug-signals", the assertion being an
  "assertion-style fatal signal". Here a print, a failed assertion and a failed warning
  each leave one event in the trace and the function goes on, as the code after each
  macro is written to do.
\<close>

definition DD_PRINT :: "string \<Rightarrow> 32 word list \<Rightarrow> trace \<Rightarrow> trace" where
  "DD_PRINT pFormat args tr = tr @ [Diag_Print pFormat args]"

definition DD_ASSERT :: "bool \<Rightarrow> string \<Rightarrow> trace \<Rightarrow> trace" where
  "DD_ASSERT statement text tr = (if statement then tr else tr @ [Diag_Assert text])"

definition DD_ASSERT_ALWAYS :: "trace \<Rightarrow> trace" where
  "DD_ASSERT_ALWAYS tr = tr @ [Diag_Assert ''Unconditional Assert'']"

definition DD_ASSERT_REASON :: "string \<Rightarrow> trace \<Rightarrow> trace" where
  "DD_ASSERT_REASON reason tr = tr @ [Diag_Assert reason]"

definition DD_WARN :: "bool \<Rightarrow> string \<Rightarrow> trace \<Rightarrow> trace" where
  "DD_WARN statement text tr = (if statement then tr else tr @ [Diag_Warn text])"

definition DD_WARN_REASON :: "string \<Rightarrow> trace \<Rightarrow> trace" where
  "DD_WARN_REASON reason tr = tr @ [Diag_Warn reason]"

subsection \<open>WaitObject, Event and Semaphore\<close>

definition WaitObject :: "os_api \<Rightarrow> HANDLE \<Rightarrow> uint32 \<Rightarrow> trace \<Rightarrow> Result \<times> trace" where
  "WaitObject os hObject millisecTimeout tr0 =
     (let tr1 = DD_ASSERT (hObject \<noteq> NULL) ''hObject != NULL'' tr0 in
      case call_WaitForSingleObject os hObject millisecTimeout tr1 of (status, tr2) \<Rightarrow>
      case (if status = WAIT_OBJECT_0 then (Success, tr2)
            else if status = WAIT_TIMEOUT then (NotReady, tr2)
            else if status = WAIT_FAILED then
              (case call_GetLastError os tr2 of (lastError, tr3) \<Rightarrow>
                 (Error, DD_ASSERT_ALWAYS
                   (if lastError = ERROR_INVALID_HANDLE
                    then DD_PRINT ''WaitForSingleObject() failed with ERROR_INVALID_HANDLE'' [] tr3
                    else (case call_GetLastError os tr3 of (e1, tr4) \<Rightarrow>
                          case call_GetLastError os tr4 of (e2, tr5) \<Rightarrow>
                            DD_PRINT ''WaitForSingleObject() failed - GLE=%d 0x%x'' [e1, e2] tr5))))
            else (Error, DD_PRINT ''WaitForSingleObject() returned %d (0x%x)'' [status, status] tr2))
      of (result, tr6) \<Rightarrow> (result, DD_WARN (result \<noteq> Error) ''result != Result::Error'' tr6))"

record Event =
  m_event :: HANDLE

record Semaphore =
  m_semaphore :: HANDLE

definition Event_Wait :: "os_api \<Rightarrow> Event \<Rightarrow> uint32 \<Rightarrow> trace \<Rightarrow> Result \<times> trace" where
  "Event_Wait os this timeoutInMs tr = WaitObject os (m_event this) timeoutInMs tr"

definition Semaphore_Wait :: "os_api \<Rightarrow> Semaphore \<Rightarrow> uint32 \<Rightarrow> trace \<Rightarrow> Result \<times> trace" where
  "Semaphore_Wait os this millisecTimeout tr = WaitObject os (m_semaphore this) millisecTimeout tr"

text \<open>
  The status that \<open>WaitObject\<close> switches on: the answer of \<open>WaitForSingleObject\<close> to the one
  call the function makes, after the entry assertion.
\<close>

definition wait_status :: "os_api \<Rightarrow> HANDLE \<Rightarrow> uint32 \<Rightarrow> trace \<Rightarrow> DWORD" where
  "wait_status os hObject millisecTimeout tr =
     WaitForSingleObject os (DD_ASSERT (hObject \<noteq> NULL) ''hObject != NULL'' tr) hObject millisecTimeout"

subsection \<open>Thread\<close>

record Thread =
  pFnFunction :: pointer
  pParameter :: pointer
  hThread :: HANDLE
  onExit :: Event

definition IsJoinable :: "Thread \<Rightarrow> bool" where
  "IsJoinable this = (hThread this \<noteq> NULL)"

definition Thread_Start :: "os_api \<Rightarrow> Thread \<Rightarrow> pointer \<Rightarrow> pointer \<Rightarrow> trace \<Rightarrow> Result \<times> Thread \<times> trace" where
  "Thread_Start os this pFnThreadFunc pThreadParameter tr0 =
     (if hThread this = NULL \<and> pFnThreadFunc \<noteq> nullptr then
        (let this1 = this\<lparr>pParameter := pThreadParameter, pFnFunction := pFnThreadFunc\<rparr> in
         case call_CreateThread os (pFnFunction this1) (pParameter this1) tr0 of (h, tr1) \<Rightarrow>
           (let this2 = this1\<lparr>hThread := h\<rparr>;
                result = (if hThread this2 \<noteq> NULL then Success else Error)
            in (result, this2, DD_WARN (result \<noteq> Error) ''result != Result::Error'' tr1)))
      else (Error, this, tr0))"

text \<open>
  Modelled from the spec: \<open>Thread::Reset\<close> is defined in the header ddPlatform.h, which is not
  part of the file. The spec says that a successful \<open>Join\<close> "releases the handle and resets
  state to unstarted", and that unstarted is "handle = empty"; the comment at the call says
  "Erase our handle now to avoid double-joining". \<open>Thread_Join\<close> below takes the reset
  function as its first argument, and this one is what the spec says of it.
\<close>

definition Thread_Reset :: "Thread \<Rightarrow> trace \<Rightarrow> Thread \<times> trace" where
  "Thread_Reset this tr = (this\<lparr>hThread := NULL\<rparr>, tr)"

text \<open>
  \<open>Thread::Join\<close> is three blocks, each guarded by \<open>result == Result::Success\<close>: the wait
  (source lines 258 to 270), the release of the handle (272 to 280), the reset (282 to 286).
\<close>

definition Thread_Join_wait :: "os_api \<Rightarrow> Thread \<Rightarrow> uint32 \<Rightarrow> trace \<Rightarrow> Result \<times> trace" where
  "Thread_Join_wait os this timeoutInMs tr0 =
     (let result = (if IsJoinable this then Success else Error) in
      if result = Success then
        (case WaitObject os (hThread this) 0 tr0 of (alive, tr1) \<Rightarrow>
           (let isThreadAlive = (alive = NotReady) in
            if isThreadAlive then Event_Wait os (onExit this) timeoutInMs tr1 else (result, tr1)))
      else (result, tr0))"

definition Thread_Join_release :: "os_api \<Rightarrow> Thread \<Rightarrow> Result \<Rightarrow> trace \<Rightarrow> Result \<times> trace" where
  "Thread_Join_release os this result tr1 =
     (if result = Success then
        (case call_CloseHandle os (hThread this) tr1 of (closed, tr2) \<Rightarrow>
           if closed = 0 then (Error, DD_WARN_REASON ''Closing the thread handle failed!'' tr2)
           else (result, tr2))
      else (result, tr1))"

definition Thread_Join ::
  "(Thread \<Rightarrow> trace \<Rightarrow> Thread \<times> trace) \<Rightarrow> os_api \<Rightarrow> Thread \<Rightarrow> uint32 \<Rightarrow> trace \<Rightarrow> Result \<times> Thread \<times> trace" where
  "Thread_Join Reset os this timeoutInMs tr0 =
     (case Thread_Join_wait os this timeoutInMs tr0 of (result1, tr1) \<Rightarrow>
      case Thread_Join_release os this result1 tr1 of (result2, tr2) \<Rightarrow>
      case (if result2 = Success then Reset this tr2 else (this, tr2)) of (this', tr3) \<Rightarrow>
        (result2, this', DD_WARN (result2 \<noteq> Error) ''result != Result::Error'' tr3))"

subsection \<open>Thread names\<close>

text \<open>
  \<open>mbstowcs(dst, src, n)\<close> of the C library, with the locale's decoder as a parameter: it
  stores at most \<open>n\<close> wide characters, stops after storing the terminating null, which it
  does not count, and returns \<open>(size_t)-1\<close> at an invalid sequence. \<open>src\<close> is the bytes before
  the terminator. The destination is an array of \<open>length dst\<close> elements, and a store beyond
  it is the fault \<open>BufferOverrun\<close>. The result is the array and the returned count.
\<close>

fun mbstowcs_from :: "(string \<Rightarrow> (wchar_t \<times> nat) option) \<Rightarrow> wchar_t list \<Rightarrow> nat \<Rightarrow> string \<Rightarrow> nat
    \<Rightarrow> fault + (wchar_t list \<times> size_t)" where
  "mbstowcs_from dec dst i src 0 = Inr (dst, i)"
| "mbstowcs_from dec dst i src (Suc n) =
     (if src = [] then
        (if i < length dst then Inr (dst[i := 0], i) else Inl BufferOverrun)
      else
        (case dec src of
           None \<Rightarrow> Inr (dst, SIZE_MAX)
         | Some (wc, k) \<Rightarrow>
             if i < length dst then mbstowcs_from dec (dst[i := wc]) (Suc i) (drop k src) n
             else Inl BufferOverrun))"

definition mbstowcs :: "(string \<Rightarrow> (wchar_t \<times> nat) option) \<Rightarrow> wchar_t list \<Rightarrow> string \<Rightarrow> nat
    \<Rightarrow> fault + (wchar_t list \<times> size_t)" where
  "mbstowcs dec dst src n = mbstowcs_from dec dst 0 src n"

text \<open>
  The constant \<open>kThreadNameMaxLength\<close> is declared in the missing header; it is the first
  argument, and \<open>ArraySize(wThreadName)\<close> is this constant. \<open>pThreadName\<close> is the bytes of
  the name before its terminator.
\<close>

definition Thread_SetNameRaw :: "nat \<Rightarrow> os_api \<Rightarrow> Thread \<Rightarrow> string \<Rightarrow> trace \<Rightarrow> fault + (Result \<times> trace)" where
  "Thread_SetNameRaw kThreadNameMaxLength os this pThreadName tr0 =
     (case call_GetModuleHandle os ''kernel32.dll'' tr0 of (hModule, tr1) \<Rightarrow>
      if hModule \<noteq> nullptr then
        (case call_GetProcAddress os hModule ''SetThreadDescription'' tr1 of (pfnSetThreadDescription, tr2) \<Rightarrow>
         if pfnSetThreadDescription \<noteq> nullptr then
           (let wThreadName0 = replicate kThreadNameMaxLength (0 :: wchar_t);
                len = min kThreadNameMaxLength (length pThreadName)
            in case mbstowcs (mbtowc os) wThreadName0 pThreadName len of
                 Inl f \<Rightarrow> Inl f
               | Inr (wThreadName, converted) \<Rightarrow>
                   (case (if converted < kThreadNameMaxLength
                          then call_SetThreadDescription os (hThread this) wThreadName tr2
                          else (E_FAIL, tr2))
                    of (hResult, tr3) \<Rightarrow>
                      Inr (if SUCCEEDED hResult then Success else Error, tr3)))
         else Inr (Unavailable, tr2))
      else Inr (Unavailable, tr1))"

text \<open>What the capability probe and the conversion of \<open>Thread_SetNameRaw\<close> give.\<close>

definition naming_function :: "os_api \<Rightarrow> trace \<Rightarrow> pointer" where
  "naming_function os tr0 =
     (case call_GetModuleHandle os ''kernel32.dll'' tr0 of (hModule, tr1) \<Rightarrow>
        if hModule \<noteq> nullptr then GetProcAddress os tr1 hModule ''SetThreadDescription''
        else nullptr)"

definition name_conversion :: "nat \<Rightarrow> os_api \<Rightarrow> string \<Rightarrow> fault + (wchar_t list \<times> size_t)" where
  "name_conversion kThreadNameMaxLength os pThreadName =
     mbstowcs (mbtowc os) (replicate kThreadNameMaxLength 0) pThreadName
       (min kThreadNameMaxLength (length pThreadName))"

subsection \<open>AtomicLock and the fast lock\<close>

record AtomicLock =
  m_lock :: Atomic

definition AtomicLock_Unlock :: "AtomicLock \<Rightarrow> trace \<Rightarrow> AtomicLock \<times> trace" where
  "AtomicLock_Unlock this tr =
     (case InterlockedCompareExchange (m_lock this) 0 1 of (prior, stored) \<Rightarrow>
        (this\<lparr>m_lock := stored\<rparr>,
         if prior = 0 then DD_ASSERT_REASON ''Tried to unlock an already unlocked AtomicLock'' tr
         else tr))"

definition ReleaseFastLock :: "Atomic \<Rightarrow> Result \<times> Atomic" where
  "ReleaseFastLock mutex =
     (case InterlockedCompareExchange mutex 0 1 of (prior, stored) \<Rightarrow>
        if prior = 0 then (Error, stored) else (Success, stored))"

subsection \<open>Mkdir\<close>

text \<open>\<open>pDir\<close> is \<open>None\<close> for the null pointer, and else the path it points to.\<close>

definition Mkdir :: "os_api \<Rightarrow> string option \<Rightarrow> trace \<Rightarrow> Result \<times> trace" where
  "Mkdir os pDir tr0 =
     (case pDir of
        None \<Rightarrow> (InvalidParameter, tr0)
      | Some dir \<Rightarrow>
          (case call_CreateDirectory os dir tr0 of (ret, tr1) \<Rightarrow>
             if ret \<noteq> 0 then (Success, tr1)
             else (case call_GetLastError os tr1 of (err, tr2) \<Rightarrow>
                     if err = ERROR_ALREADY_EXISTS then (Success, tr2)
                     else (FileIoError, tr2))))"

subsection \<open>Example environments\<close>

text \<open>
  Concrete systems and objects on which the theorems below are evaluated. \<open>ascii\<close> is the
  decoder of a locale that maps each byte below 128 to one wide character and rejects the
  others. \<open>os_quiet\<close> is a system on which every call succeeds; the others change one answer.
\<close>

definition ascii :: "string \<Rightarrow> (wchar_t \<times> nat) option" where
  "ascii src =
     (case src of
        [] \<Rightarrow> None
      | c # cs \<Rightarrow> if (of_char c :: nat) < 128 then Some (of_char c, 1) else None)"

definition os_quiet :: os_api where
  "os_quiet =
     \<lparr>WaitForSingleObject = (\<lambda>tr h ms. WAIT_OBJECT_0),
      GetLastError = (\<lambda>tr. 0),
      CreateThread = (\<lambda>tr pFn pParam. 7),
      CloseHandle = (\<lambda>tr h. 1),
      GetModuleHandle = (\<lambda>tr name. 1),
      GetProcAddress = (\<lambda>tr h name. 1),
      SetThreadDescription = (\<lambda>tr h description. 0),
      CreateDirectory = (\<lambda>tr path. 1),
      mbtowc = ascii\<rparr>"

definition os_wait :: "DWORD \<Rightarrow> os_api" where
  "os_wait status = os_quiet\<lparr>WaitForSingleObject := (\<lambda>tr h ms. status)\<rparr>"

definition os_close_fails :: os_api where
  "os_close_fails = os_quiet\<lparr>CloseHandle := (\<lambda>tr h. 0)\<rparr>"


definition os_naming_fails :: os_api where
  "os_naming_fails = os_quiet\<lparr>SetThreadDescription := (\<lambda>tr h description. E_FAIL)\<rparr>"

definition os_old_windows :: os_api where
  "os_old_windows = os_quiet\<lparr>GetProcAddress := (\<lambda>tr h name. nullptr)\<rparr>"

definition os_mkdir :: "BOOL \<Rightarrow> DWORD \<Rightarrow> os_api" where
  "os_mkdir ret err = os_quiet\<lparr>CreateDirectory := (\<lambda>tr path. ret), GetLastError := (\<lambda>tr. err)\<rparr>"

definition idle_thread :: Thread where
  "idle_thread = \<lparr>pFnFunction = nullptr, pParameter = nullptr, hThread = NULL, onExit = \<lparr>m_event = 3\<rparr>\<rparr>"

definition running_thread :: Thread where
  "running_thread = \<lparr>pFnFunction = 4096, pParameter = 8192, hThread = 7, onExit = \<lparr>m_event = 3\<rparr>\<rparr>"

text \<open>
  The trace of \<open>Thread_SetNameRaw\<close> after its two lookups, at which the naming function is
  called.
\<close>

definition naming_trace :: "os_api \<Rightarrow> trace \<Rightarrow> trace" where
  "naming_trace os tr =
     tr @ [Call_GetModuleHandle ''kernel32.dll'',
           Call_GetProcAddress (GetModuleHandle os tr ''kernel32.dll'') ''SetThreadDescription'']"


section \<open>Properties\<close>

subsection \<open>Fields of the example environments\<close>

lemma os_quiet_fields:
  "WaitForSingleObject os_quiet tr h ms = WAIT_OBJECT_0"
  "GetLastError os_quiet tr = 0"
  "CreateThread os_quiet tr pFn pParam = 7"
  "CloseHandle os_quiet tr h = 1"
  "GetModuleHandle os_quiet tr name = 1"
  "GetProcAddress os_quiet tr h name = 1"
  "SetThreadDescription os_quiet tr h description = 0"
  "CreateDirectory os_quiet tr path = 1"
  "mbtowc os_quiet = ascii"
  by (simp_all add: os_quiet_def)

lemma os_wait_fields:
  "WaitForSingleObject (os_wait status) tr h ms = status"
  "GetLastError (os_wait status) tr = 0"
  by (simp_all add: os_wait_def os_quiet_def)

lemma os_close_fails_fields:
  "WaitForSingleObject os_close_fails tr h ms = WAIT_OBJECT_0"
  "CloseHandle os_close_fails tr h = 0"
  by (simp_all add: os_close_fails_def os_quiet_def)


lemma os_naming_fails_fields:
  "GetModuleHandle os_naming_fails tr name = 1"
  "GetProcAddress os_naming_fails tr h name = 1"
  "SetThreadDescription os_naming_fails tr h description = E_FAIL"
  "mbtowc os_naming_fails = ascii"
  by (simp_all add: os_naming_fails_def os_quiet_def)

lemma os_old_windows_fields:
  "GetModuleHandle os_old_windows tr name = 1"
  "GetProcAddress os_old_windows tr h name = nullptr"
  by (simp_all add: os_old_windows_def os_quiet_def)

lemma os_mkdir_fields:
  "CreateDirectory (os_mkdir ret err) tr path = ret"
  "GetLastError (os_mkdir ret err) tr = err"
  by (simp_all add: os_mkdir_def os_quiet_def)

subsection \<open>Atomic subtraction\<close>










subsection \<open>AtomicLock\<close>

text \<open>
  C7: \<open>AtomicLock::Unlock\<close> takes the lock word from 1 to 0 by one compare-exchange and then
  emits nothing; when the value it observed was 0, it emits the assertion "Tried to unlock an
  already unlocked AtomicLock", and it emits something in that case only.
\<close>

theorem AtomicLock_Unlock_transition:
  "(m_lock this = 1 \<longrightarrow> AtomicLock_Unlock this tr = (this\<lparr>m_lock := 0\<rparr>, tr))
   \<and> (m_lock this = 0 \<longrightarrow>
        snd (AtomicLock_Unlock this tr) =
          tr @ [Diag_Assert ''Tried to unlock an already unlocked AtomicLock''])
   \<and> (snd (AtomicLock_Unlock this tr) \<noteq> tr \<longleftrightarrow> m_lock this = 0)"
  by (simp add: AtomicLock_Unlock_def InterlockedCompareExchange_def DD_ASSERT_REASON_def)

theorem AtomicLock_Unlock_transition_witness:
  "m_lock \<lparr>m_lock = 1\<rparr> = 1
   \<and> AtomicLock_Unlock \<lparr>m_lock = 1\<rparr> [] = (\<lparr>m_lock = 0\<rparr>, [])
   \<and> m_lock \<lparr>m_lock = 0\<rparr> = 0
   \<and> snd (AtomicLock_Unlock \<lparr>m_lock = 0\<rparr> []) =
        [Diag_Assert ''Tried to unlock an already unlocked AtomicLock'']"
  using AtomicLock_Unlock_transition [of "\<lparr>m_lock = 1\<rparr>" "[]"]
    AtomicLock_Unlock_transition [of "\<lparr>m_lock = 0\<rparr>" "[]"]
  by simp

text \<open>
  C10: \<open>AtomicLock::Unlock\<close> on a lock whose word is 0 leaves the lock as it was, the word
  still 0: the compare-exchange from 1 to 0 writes only when it finds 1. The same holds of
  \<open>Windows::ReleaseFastLock\<close>, which returns \<open>Error\<close> there.
\<close>

theorem Unlock_unlocked_keeps_word:
  "(m_lock this = 0 \<longrightarrow>
      fst (AtomicLock_Unlock this tr) = this \<and> m_lock (fst (AtomicLock_Unlock this tr)) = 0)
   \<and> (m_lock this \<noteq> 1 \<longrightarrow> fst (AtomicLock_Unlock this tr) = this)
   \<and> ReleaseFastLock 0 = (Error, 0)
   \<and> (mutex \<noteq> 1 \<longrightarrow> snd (ReleaseFastLock mutex) = mutex)"
  by (simp add: AtomicLock_Unlock_def ReleaseFastLock_def InterlockedCompareExchange_def)

theorem Unlock_unlocked_keeps_word_witness:
  "m_lock \<lparr>m_lock = 0\<rparr> = 0
   \<and> fst (AtomicLock_Unlock \<lparr>m_lock = 0\<rparr> []) = \<lparr>m_lock = 0\<rparr>
   \<and> (2 :: Atomic) \<noteq> 1 \<and> ReleaseFastLock 2 = (Success, 2)"
  using Unlock_unlocked_keeps_word [of "\<lparr>m_lock = 0\<rparr>" "[]" 2]
  by (simp add: ReleaseFastLock_def InterlockedCompareExchange_def)

subsection \<open>WaitObject\<close>

lemma WaitObject_result:
  "fst (WaitObject os h ms tr) =
     (if wait_status os h ms tr = WAIT_OBJECT_0 then Success
      else if wait_status os h ms tr = WAIT_TIMEOUT then NotReady else Error)"
  by (simp add: WaitObject_def wait_status_def call_WaitForSingleObject_def Let_def split: prod.splits)

text \<open>
  C4: \<open>WaitObject\<close> returns \<open>Success\<close> exactly when the wait status is \<open>WAIT_OBJECT_0\<close>,
  \<open>NotReady\<close> exactly when it is \<open>WAIT_TIMEOUT\<close>, and \<open>Error\<close> at every other status,
  \<open>WAIT_FAILED\<close> and unknown codes alike; \<open>Event::Wait\<close> and \<open>Semaphore::Wait\<close> are
  \<open>WaitObject\<close> on their handle.
\<close>

theorem WaitObject_three_way:
  "(fst (WaitObject os h ms tr) = Success \<longleftrightarrow> wait_status os h ms tr = WAIT_OBJECT_0)
   \<and> (fst (WaitObject os h ms tr) = NotReady \<longleftrightarrow> wait_status os h ms tr = WAIT_TIMEOUT)
   \<and> (fst (WaitObject os h ms tr) = Error \<longleftrightarrow>
        wait_status os h ms tr \<noteq> WAIT_OBJECT_0 \<and> wait_status os h ms tr \<noteq> WAIT_TIMEOUT)
   \<and> Event_Wait os e ms tr = WaitObject os (m_event e) ms tr
   \<and> Semaphore_Wait os s ms tr = WaitObject os (m_semaphore s) ms tr"
  by (simp add: WaitObject_result Event_Wait_def Semaphore_Wait_def WAIT_OBJECT_0_def WAIT_TIMEOUT_def)

theorem WaitObject_three_way_witness:
  "fst (WaitObject (os_wait WAIT_OBJECT_0) 3 100 []) = Success
   \<and> fst (WaitObject (os_wait WAIT_TIMEOUT) 3 100 []) = NotReady
   \<and> fst (WaitObject (os_wait WAIT_FAILED) 3 100 []) = Error
   \<and> fst (WaitObject (os_wait 128) 3 100 []) = Error
   \<and> fst (Event_Wait (os_wait WAIT_TIMEOUT) \<lparr>m_event = 3\<rparr> 100 []) = NotReady
   \<and> fst (Semaphore_Wait (os_wait 128) \<lparr>m_semaphore = 3\<rparr> 100 []) = Error"
  using WaitObject_three_way [of "os_wait WAIT_OBJECT_0" 3 100 "[]" "\<lparr>m_event = 3\<rparr>" "\<lparr>m_semaphore = 3\<rparr>"]
    WaitObject_three_way [of "os_wait WAIT_TIMEOUT" 3 100 "[]" "\<lparr>m_event = 3\<rparr>" "\<lparr>m_semaphore = 3\<rparr>"]
    WaitObject_three_way [of "os_wait WAIT_FAILED" 3 100 "[]" "\<lparr>m_event = 3\<rparr>" "\<lparr>m_semaphore = 3\<rparr>"]
    WaitObject_three_way [of "os_wait 128" 3 100 "[]" "\<lparr>m_event = 3\<rparr>" "\<lparr>m_semaphore = 3\<rparr>"]
  by (simp add: wait_status_def os_wait_fields WAIT_OBJECT_0_def WAIT_TIMEOUT_def WAIT_FAILED_def)

subsection \<open>Mkdir\<close>

text \<open>
  C8: with a path, \<open>Mkdir\<close> returns \<open>Success\<close> when \<open>CreateDirectory\<close> creates the directory
  and when it fails with the last error \<open>ERROR_ALREADY_EXISTS\<close>; at every other failure it
  returns \<open>FileIoError\<close>.
\<close>

theorem Mkdir_existing_is_success:
  "fst (Mkdir os (Some dir) tr) =
     (if CreateDirectory os tr dir \<noteq> 0 then Success
      else if GetLastError os (tr @ [Call_CreateDirectory dir]) = ERROR_ALREADY_EXISTS then Success
      else FileIoError)"
  by (simp add: Mkdir_def call_CreateDirectory_def call_GetLastError_def)

theorem Mkdir_existing_is_success_witness:
  "fst (Mkdir (os_mkdir 1 0) (Some ''logs'') []) = Success
   \<and> fst (Mkdir (os_mkdir 0 ERROR_ALREADY_EXISTS) (Some ''logs'') []) = Success
   \<and> fst (Mkdir (os_mkdir 0 5) (Some ''logs'') []) = FileIoError"
  using Mkdir_existing_is_success [of "os_mkdir 1 0" "''logs''" "[]"]
    Mkdir_existing_is_success [of "os_mkdir 0 ERROR_ALREADY_EXISTS" "''logs''" "[]"]
    Mkdir_existing_is_success [of "os_mkdir 0 5" "''logs''" "[]"]
  by (simp add: os_mkdir_fields ERROR_ALREADY_EXISTS_def)

text \<open>
  C9: \<open>Mkdir\<close> with the null pointer returns \<open>InvalidParameter\<close> and leaves the trace as it
  was: it calls nothing.
\<close>

theorem Mkdir_null:
  "Mkdir os None tr = (InvalidParameter, tr)"
  by (simp add: Mkdir_def)

theorem Mkdir_null_witness:
  "Mkdir os_quiet None [] = (InvalidParameter, [])"
  using Mkdir_null [of os_quiet "[]"]
  by simp

subsection \<open>Thread::Start\<close>

text \<open>
  C1: \<open>Thread::Start\<close> on a thread object that already holds a handle, or with a null entry
  function, returns \<open>Error\<close> with the object and the trace unchanged: it calls nothing, so it
  neither blocks nor creates a thread. It returns \<open>Success\<close> exactly when the handle is
  empty, the entry function is not null and \<open>CreateThread\<close> returns a handle; every other
  result is \<open>Error\<close>.
\<close>

theorem Thread_Start_guard:
  "(hThread this \<noteq> NULL \<or> pFnThreadFunc = nullptr \<longrightarrow>
      Thread_Start os this pFnThreadFunc pThreadParameter tr = (Error, this, tr))
   \<and> (fst (Thread_Start os this pFnThreadFunc pThreadParameter tr) = Success \<longleftrightarrow>
        hThread this = NULL \<and> pFnThreadFunc \<noteq> nullptr
        \<and> CreateThread os tr pFnThreadFunc pThreadParameter \<noteq> NULL)
   \<and> (fst (Thread_Start os this pFnThreadFunc pThreadParameter tr) \<noteq> Success \<longrightarrow>
        fst (Thread_Start os this pFnThreadFunc pThreadParameter tr) = Error)"
  by (simp add: Thread_Start_def call_CreateThread_def Let_def)

theorem Thread_Start_guard_witness:
  "hThread running_thread \<noteq> NULL
   \<and> Thread_Start os_quiet running_thread 4096 0 [] = (Error, running_thread, [])
   \<and> Thread_Start os_quiet idle_thread nullptr 0 [] = (Error, idle_thread, [])
   \<and> fst (Thread_Start os_quiet idle_thread 4096 8192 []) = Success"
  using Thread_Start_guard [where this = running_thread and pFnThreadFunc = 4096 and os = os_quiet
      and pThreadParameter = 0 and tr = "[]"]
    Thread_Start_guard [where this = idle_thread and pFnThreadFunc = nullptr and os = os_quiet
      and pThreadParameter = 0 and tr = "[]"]
    Thread_Start_guard [where this = idle_thread and pFnThreadFunc = 4096 and os = os_quiet
      and pThreadParameter = 8192 and tr = "[]"]
  by (simp add: running_thread_def idle_thread_def os_quiet_fields NULL_def nullptr_def)

subsection \<open>Thread::Join and IsJoinable\<close>

lemma Thread_Join_wait_not_joinable:
  "hThread this = NULL \<Longrightarrow> Thread_Join_wait os this timeoutInMs tr = (Error, tr)"
  by (simp add: Thread_Join_wait_def IsJoinable_def)

lemma Thread_Join_not_joinable:
  "hThread this = NULL \<Longrightarrow>
     Thread_Join Reset os this timeoutInMs tr =
       (Error, this, tr @ [Diag_Warn ''result != Result::Error''])"
  by (simp add: Thread_Join_def Thread_Join_wait_not_joinable Thread_Join_release_def DD_WARN_def)

lemma Thread_Join_state:
  "fst (snd (Thread_Join Reset os this timeoutInMs tr)) =
     (if fst (Thread_Join Reset os this timeoutInMs tr) = Success
      then fst (Reset this (snd (Thread_Join_release os this
             (fst (Thread_Join_wait os this timeoutInMs tr))
             (snd (Thread_Join_wait os this timeoutInMs tr)))))
      else this)"
  by (simp add: Thread_Join_def split: prod.splits)




text \<open>Evaluation of the wait and of the whole join on the example environments.\<close>

lemma Thread_Join_wait_running:
  "Thread_Join_wait os_quiet running_thread 100 [] = (Success, [Call_WaitForSingleObject 7 0])"
  "Thread_Join_wait os_close_fails running_thread 100 [] = (Success, [Call_WaitForSingleObject 7 0])"
  by (simp_all add: Thread_Join_wait_def IsJoinable_def running_thread_def NULL_def WaitObject_def
      call_WaitForSingleObject_def os_quiet_fields os_close_fails_fields DD_ASSERT_def DD_WARN_def
      WAIT_OBJECT_0_def)

lemma Thread_Join_running:
  "Thread_Join Thread_Reset os_quiet running_thread 100 [] =
     (Success, running_thread\<lparr>hThread := NULL\<rparr>, [Call_WaitForSingleObject 7 0, Call_CloseHandle 7])"
  by (simp add: Thread_Join_def Thread_Join_wait_running Thread_Join_release_def call_CloseHandle_def
      os_quiet_fields Thread_Reset_def DD_WARN_def)
    (simp add: running_thread_def)

text \<open>
  C2: whatever the timeout, \<open>Thread::Join\<close> on a thread object with no handle returns
  \<open>Error\<close>, leaves the object as it was and adds to the trace only the warning on the error
  result: it makes no wait and no other call. \<open>IsJoinable\<close> is true exactly when a handle is
  bound: after \<open>Start\<close> on an unstarted object exactly when \<open>Start\<close> returned \<open>Success\<close>, no
  longer after a successful \<open>Join\<close> (whose reset empties the handle), and as before after a
  \<open>Join\<close> that did not succeed.
\<close>

theorem Thread_Join_never_started:
  "(hThread this = NULL \<longrightarrow>
      Thread_Join Reset os this timeoutInMs tr =
        (Error, this, tr @ [Diag_Warn ''result != Result::Error'']))
   \<and> (IsJoinable this \<longleftrightarrow> hThread this \<noteq> NULL)
   \<and> (hThread this = NULL \<longrightarrow>
        (IsJoinable (fst (snd (Thread_Start os this pFn pParam tr))) \<longleftrightarrow>
         fst (Thread_Start os this pFn pParam tr) = Success))
   \<and> ((\<forall>t tr'. hThread (fst (Reset t tr')) = NULL)
        \<and> fst (Thread_Join Reset os this timeoutInMs tr) = Success \<longrightarrow>
        \<not> IsJoinable (fst (snd (Thread_Join Reset os this timeoutInMs tr))))
   \<and> (fst (Thread_Join Reset os this timeoutInMs tr) \<noteq> Success \<longrightarrow>
        fst (snd (Thread_Join Reset os this timeoutInMs tr)) = this)"
  by (simp add: Thread_Join_not_joinable Thread_Join_state IsJoinable_def Thread_Start_def
      call_CreateThread_def Let_def)

theorem Thread_Join_never_started_witness:
  "hThread idle_thread = NULL
   \<and> Thread_Join Thread_Reset os_quiet idle_thread 100 [] =
       (Error, idle_thread, [Diag_Warn ''result != Result::Error''])
   \<and> \<not> IsJoinable idle_thread
   \<and> IsJoinable (fst (snd (Thread_Start os_quiet idle_thread 4096 8192 [])))
   \<and> (\<forall>t tr'. hThread (fst (Thread_Reset t tr')) = NULL)
   \<and> fst (Thread_Join Thread_Reset os_quiet running_thread 100 []) = Success
   \<and> \<not> IsJoinable (fst (snd (Thread_Join Thread_Reset os_quiet running_thread 100 [])))"
  using Thread_Join_never_started [where this = idle_thread and Reset = Thread_Reset
      and os = os_quiet and timeoutInMs = 100 and tr = "[]" and pFn = 4096 and pParam = 8192]
    Thread_Join_never_started [where this = running_thread and Reset = Thread_Reset
      and os = os_quiet and timeoutInMs = 100 and tr = "[]" and pFn = 4096 and pParam = 8192]
  by (simp add: Thread_Join_running Thread_Reset_def)
    (simp add: idle_thread_def Thread_Start_def call_CreateThread_def os_quiet_fields NULL_def
      nullptr_def IsJoinable_def)









subsection \<open>Thread::SetNameRaw\<close>

text \<open>
  The conversion stays inside the destination: started at index \<open>i\<close> with room for \<open>n\<close>
  more wide characters, it returns an array of the same length and a count of at most
  \<open>i + n\<close>, or the failure value.
\<close>

lemma mbstowcs_from_in_bounds:
  "i + n \<le> length dst \<Longrightarrow>
     \<exists>dst' c. mbstowcs_from dec dst i src n = Inr (dst', c) \<and> length dst' = length dst
        \<and> (c \<le> i + n \<or> c = SIZE_MAX)"
proof (induction n arbitrary: dst i src)
  case 0
  then show ?case by simp
next
  case (Suc n)
  show ?case
  proof (cases "src = []")
    case True
    with Suc.prems show ?thesis by simp
  next
    case False
    show ?thesis
    proof (cases "dec src")
      case None
      with False show ?thesis by simp
    next
      case (Some p)
      obtain wc k where p: "p = (wc, k)" by (cases p)
      from Suc.prems have "Suc i + n \<le> length (dst[i := wc])" by simp
      from Suc.IH [OF this, of "drop k src"] Suc.prems False Some p
      show ?thesis by auto
    qed
  qed
qed

lemma name_conversion_in_bounds:
  "\<exists>wThreadName converted. name_conversion N os name = Inr (wThreadName, converted)
     \<and> length wThreadName = N
     \<and> (converted \<le> min N (length name) \<or> converted = SIZE_MAX)"
  using mbstowcs_from_in_bounds [of 0 "min N (length name)" "replicate N 0" "mbtowc os" name]
  by (simp add: name_conversion_def mbstowcs_def)

lemma Thread_SetNameRaw_unfold:
  "Thread_SetNameRaw N os this name tr =
     (if naming_function os tr = nullptr then
        Inr (Unavailable,
          if GetModuleHandle os tr ''kernel32.dll'' = nullptr
          then tr @ [Call_GetModuleHandle ''kernel32.dll'']
          else naming_trace os tr)
      else
        (case name_conversion N os name of
           Inl f \<Rightarrow> Inl f
         | Inr (wThreadName, converted) \<Rightarrow>
             if converted < N then
               Inr (if SUCCEEDED (SetThreadDescription os (naming_trace os tr) (hThread this) wThreadName)
                    then Success else Error,
                    naming_trace os tr @ [Call_SetThreadDescription (hThread this) wThreadName])
             else Inr (Error, naming_trace os tr)))"
  by (simp add: Thread_SetNameRaw_def naming_function_def name_conversion_def naming_trace_def
      call_GetModuleHandle_def call_GetProcAddress_def call_SetThreadDescription_def Let_def
      SUCCEEDED_def E_FAIL_def split: sum.splits prod.splits)

lemma SIZE_MAX_large: "4 \<le> SIZE_MAX" "\<not> SIZE_MAX < 4"
  by (simp_all add: SIZE_MAX_def)

lemma name_conversion_ascii:
  "mbtowc os = ascii \<Longrightarrow> name_conversion 4 os ''t'' = Inr ([116, 0, 0, 0], 1)"
  "mbtowc os = ascii \<Longrightarrow> name_conversion 4 os ''gpu'' = Inr ([103, 112, 117, 0], 3)"
  "mbtowc os = ascii \<Longrightarrow> name_conversion 4 os ''worker'' = Inr ([119, 111, 114, 107], 4)"
  "mbtowc os = ascii \<Longrightarrow> name_conversion 4 os [CHR 0xC3, CHR 0x28] = Inr ([0, 0, 0, 0], SIZE_MAX)"
  by (simp_all add: name_conversion_def mbstowcs_def ascii_def eval_nat_numeral)

text \<open>
  C5, as stated, fails: on a system that has the naming function, with the name "t" that
  converts to one wide character, the naming call returns \<open>E_FAIL\<close> and \<open>SetNameRaw\<close> returns
  \<open>Error\<close>, where the claim's "Success otherwise" gives \<open>Success\<close>.
\<close>

theorem Thread_SetNameRaw_success_otherwise_counterexample:
  "naming_function os_naming_fails [] \<noteq> nullptr
   \<and> name_conversion 4 os_naming_fails ''t'' = Inr ([116, 0, 0, 0], 1)
   \<and> Thread_SetNameRaw 4 os_naming_fails running_thread ''t'' [] =
       Inr (Error, [Call_GetModuleHandle ''kernel32.dll'',
                    Call_GetProcAddress 1 ''SetThreadDescription'',
                    Call_SetThreadDescription 7 [116, 0, 0, 0]])"
  by (simp add: Thread_SetNameRaw_unfold name_conversion_ascii naming_function_def naming_trace_def
      call_GetModuleHandle_def os_naming_fails_fields nullptr_def running_thread_def SUCCEEDED_def
      E_FAIL_def)

text \<open>
  C5, amended: \<open>Thread::SetNameRaw\<close> returns \<open>Unavailable\<close> when the naming function cannot
  be located. Otherwise it returns \<open>Success\<close> exactly when \<open>mbstowcs\<close> converted fewer than
  \<open>kThreadNameMaxLength\<close> wide characters and the naming call returned a succeeding
  \<open>HRESULT\<close>, and \<open>Error\<close> in every other case: a failed conversion (for a buffer size that
  \<open>size_t\<close> can hold), a name that fills the whole buffer, a naming call that fails. For every
  name the conversion stays inside the buffer of \<open>kThreadNameMaxLength\<close> wide characters: it
  never overruns it, and it converts at most the smaller of \<open>kThreadNameMaxLength\<close> and the
  length of the name.
\<close>

theorem Thread_SetNameRaw_result:
  "\<exists>wThreadName converted tr'.
      name_conversion kThreadNameMaxLength os pThreadName = Inr (wThreadName, converted)
      \<and> length wThreadName = kThreadNameMaxLength
      \<and> (converted \<le> min kThreadNameMaxLength (length pThreadName) \<or> converted = SIZE_MAX)
      \<and> Thread_SetNameRaw kThreadNameMaxLength os this pThreadName tr =
          Inr (if naming_function os tr = nullptr then Unavailable
               else if converted < kThreadNameMaxLength
                       \<and> SUCCEEDED (SetThreadDescription os (naming_trace os tr) (hThread this) wThreadName)
               then Success else Error, tr')
      \<and> (kThreadNameMaxLength \<le> SIZE_MAX \<and> converted = SIZE_MAX \<longrightarrow>
           (\<forall>t. Thread_SetNameRaw kThreadNameMaxLength os this pThreadName tr \<noteq> Inr (Success, t)))"
proof -
  obtain wThreadName converted where
    c: "name_conversion kThreadNameMaxLength os pThreadName = Inr (wThreadName, converted)"
    and l: "length wThreadName = kThreadNameMaxLength"
    and b: "converted \<le> min kThreadNameMaxLength (length pThreadName) \<or> converted = SIZE_MAX"
    using name_conversion_in_bounds by blast
  show ?thesis
    using c l b
    by (simp add: Thread_SetNameRaw_unfold)
qed

theorem Thread_SetNameRaw_result_witness:
  "Thread_SetNameRaw 4 os_quiet running_thread ''gpu'' [] =
       Inr (Success, [Call_GetModuleHandle ''kernel32.dll'',
                      Call_GetProcAddress 1 ''SetThreadDescription'',
                      Call_SetThreadDescription 7 [103, 112, 117, 0]])
   \<and> Thread_SetNameRaw 4 os_quiet running_thread ''worker'' [] =
       Inr (Error, [Call_GetModuleHandle ''kernel32.dll'',
                    Call_GetProcAddress 1 ''SetThreadDescription''])
   \<and> 4 \<le> SIZE_MAX
   \<and> name_conversion 4 os_quiet [CHR 0xC3, CHR 0x28] = Inr ([0, 0, 0, 0], SIZE_MAX)
   \<and> Thread_SetNameRaw 4 os_quiet running_thread [CHR 0xC3, CHR 0x28] [] =
       Inr (Error, [Call_GetModuleHandle ''kernel32.dll'',
                    Call_GetProcAddress 1 ''SetThreadDescription''])
   \<and> Thread_SetNameRaw 4 os_old_windows running_thread ''gpu'' [] =
       Inr (Unavailable, [Call_GetModuleHandle ''kernel32.dll'',
                          Call_GetProcAddress 1 ''SetThreadDescription''])"
  using Thread_SetNameRaw_result [of 4 os_quiet "''gpu''" running_thread "[]"]
    Thread_SetNameRaw_result [of 4 os_quiet "''worker''" running_thread "[]"]
    Thread_SetNameRaw_result [of 4 os_quiet "[CHR 0xC3, CHR 0x28]" running_thread "[]"]
    Thread_SetNameRaw_result [of 4 os_old_windows "''gpu''" running_thread "[]"]
  by (simp add: Thread_SetNameRaw_unfold name_conversion_ascii naming_function_def naming_trace_def
      call_GetModuleHandle_def os_quiet_fields os_old_windows_fields nullptr_def running_thread_def
      SUCCEEDED_def SIZE_MAX_large)

end
